theory Spec2Isabelle
  imports Main "HOL-Library.Word"
begin

unbundle bit_operations_syntax

section \<open>The LC-3 virtual machine of \<^verbatim>\<open>lc3-vm.c\<close>\<close>

subsection \<open>Global state\<close>

text \<open>
  A machine word is \<^verbatim>\<open>uint16_t\<close>. The program keeps its state in three globals,
  \<^verbatim>\<open>int running\<close>, \<^verbatim>\<open>uint16_t memory[UINT16_MAX]\<close> and \<^verbatim>\<open>uint16_t reg[R_COUNT]\<close>, and
  talks to the terminal through \<^verbatim>\<open>select\<close>, \<^verbatim>\<open>getchar\<close>, \<^verbatim>\<open>putc\<close> and \<^verbatim>\<open>printf\<close>.
  The two arrays are functions from the index to the cell, each with the number of
  cells the declaration gives it; an access whose index is not below that number is
  the fault \<open>OutOfBounds\<close> (in C the behaviour is undefined), and \<^verbatim>\<open>abort()\<close> is the
  fault \<open>Abort\<close>. The terminal is the script of what it will answer: what each
  successive \<^verbatim>\<open>select\<close> poll reports, and the bytes that successive \<^verbatim>\<open>getchar\<close> calls
  return (end of input after the last one); what the program prints is collected
  in \<open>stdout\<close>.
\<close>

type_synonym u16 = "16 word"

datatype fault = OutOfBounds | Abort

record vm =
  memory :: "nat \<Rightarrow> u16"
  reg :: "nat \<Rightarrow> u16"
  running :: int
  key_polls :: "bool list"
  stdin :: "8 word list"
  stdout :: string

text \<open>\<^verbatim>\<open>UINT16_MAX\<close> of \<^verbatim>\<open>stdint.h\<close>: the number of cells of \<^verbatim>\<open>memory\<close>.\<close>

definition UINT16_MAX :: nat where
  "UINT16_MAX = 65535"

text \<open>\<^verbatim>\<open>enum registers\<close>; \<open>R_COUNT\<close> is the number of cells of \<^verbatim>\<open>reg\<close>.\<close>

definition R_R0 :: nat where "R_R0 = 0"
definition R_R1 :: nat where "R_R1 = 1"
definition R_R2 :: nat where "R_R2 = 2"
definition R_R3 :: nat where "R_R3 = 3"
definition R_R4 :: nat where "R_R4 = 4"
definition R_R5 :: nat where "R_R5 = 5"
definition R_R6 :: nat where "R_R6 = 6"
definition R_R7 :: nat where "R_R7 = 7"
definition R_PC :: nat where "R_PC = 8"
definition R_COND :: nat where "R_COND = 9"
definition R_COUNT :: nat where "R_COUNT = 10"

text \<open>\<^verbatim>\<open>enum operations\<close>.\<close>

definition OP_BR :: u16 where "OP_BR = 0"
definition OP_ADD :: u16 where "OP_ADD = 1"
definition OP_LD :: u16 where "OP_LD = 2"
definition OP_ST :: u16 where "OP_ST = 3"
definition OP_JSR :: u16 where "OP_JSR = 4"
definition OP_AND :: u16 where "OP_AND = 5"
definition OP_LDR :: u16 where "OP_LDR = 6"
definition OP_STR :: u16 where "OP_STR = 7"
definition OP_RTI :: u16 where "OP_RTI = 8"
definition OP_NOT :: u16 where "OP_NOT = 9"
definition OP_LDI :: u16 where "OP_LDI = 10"
definition OP_STI :: u16 where "OP_STI = 11"
definition OP_JMP :: u16 where "OP_JMP = 12"
definition OP_RES :: u16 where "OP_RES = 13"
definition OP_LEA :: u16 where "OP_LEA = 14"
definition OP_TRAP :: u16 where "OP_TRAP = 15"

text \<open>\<^verbatim>\<open>enum flags\<close>: \<^verbatim>\<open>1 << 0\<close>, \<^verbatim>\<open>1 << 1\<close>, \<^verbatim>\<open>1 << 2\<close>.\<close>

definition FL_POS :: u16 where "FL_POS = push_bit 0 1"
definition FL_ZRO :: u16 where "FL_ZRO = push_bit 1 1"
definition FL_NEG :: u16 where "FL_NEG = push_bit 2 1"

text \<open>\<^verbatim>\<open>enum traps\<close>.\<close>

definition TRAP_GETC :: u16 where "TRAP_GETC = 0x20"
definition TRAP_OUT :: u16 where "TRAP_OUT = 0x21"
definition TRAP_PUTS :: u16 where "TRAP_PUTS = 0x22"
definition TRAP_IN :: u16 where "TRAP_IN = 0x23"
definition TRAP_PUTSP :: u16 where "TRAP_PUTSP = 0x24"
definition TRAP_HALT :: u16 where "TRAP_HALT = 0x25"

text \<open>\<^verbatim>\<open>enum mem_regs\<close>.\<close>

definition MR_KBSR :: u16 where "MR_KBSR = 0xFE00"
definition MR_KBDR :: u16 where "MR_KBDR = 0xFE02"

subsection \<open>Helper functions\<close>

text \<open>
  \<^verbatim>\<open>sign_extend\<close>: the test is \<^verbatim>\<open>(x >> (bit_count - 1)) & 1\<close>; the mask \<^verbatim>\<open>0xFFFF << bit_count\<close>
  is computed on \<^verbatim>\<open>int\<close> and cut to 16 bits by the assignment to \<^verbatim>\<open>x\<close>. The program
  calls it with the bit counts 5, 6, 9 and 11 only, for which neither shift leaves the
  range C defines them on.
\<close>

definition sign_extend :: "u16 \<Rightarrow> int \<Rightarrow> u16" where
  "sign_extend x bit_count =
     (if drop_bit (nat (bit_count - 1)) x AND 1 \<noteq> 0
      then x OR word_of_int (push_bit (nat bit_count) (0xFFFF :: int))
      else x)"

text \<open>\<^verbatim>\<open>update_flags\<close>: the register is \<^verbatim>\<open>reg[r]\<close>, \<open>r\<close> any \<^verbatim>\<open>uint16_t\<close>.\<close>

definition update_flags :: "vm \<Rightarrow> u16 \<Rightarrow> fault + vm" where
  "update_flags s r =
     (if unat r < R_COUNT then
        (if reg s (unat r) = 0 then Inr (s\<lparr>reg := (reg s)(R_COND := FL_ZRO)\<rparr>)
         else if drop_bit 15 (reg s (unat r)) \<noteq> 0 then Inr (s\<lparr>reg := (reg s)(R_COND := FL_NEG)\<rparr>)
         else Inr (s\<lparr>reg := (reg s)(R_COND := FL_POS)\<rparr>))
      else Inl OutOfBounds)"

text \<open>
  \<^verbatim>\<open>check_key\<close>: \<^verbatim>\<open>select(...) != 0\<close> with a zero timeout. The answer is the next entry
  of the poll script; a script that has run out answers that nothing is ready.
\<close>

definition check_key :: "vm \<Rightarrow> bool \<times> vm" where
  "check_key s =
     (case key_polls s of
        [] \<Rightarrow> (False, s)
      | b # bs \<Rightarrow> (b, s\<lparr>key_polls := bs\<rparr>))"

text \<open>
  \<^verbatim>\<open>getchar\<close> of the C library: the next byte of the input as an \<^verbatim>\<open>int\<close> in 0..255, or
  \<^verbatim>\<open>EOF\<close>, which is -1, at the end of the input.
\<close>

definition getchar :: "vm \<Rightarrow> int \<times> vm" where
  "getchar s =
     (case stdin s of
        [] \<Rightarrow> (- 1, s)
      | c # cs \<Rightarrow> (uint c, s\<lparr>stdin := cs\<rparr>))"

text \<open>\<^verbatim>\<open>putc((char) w, stdout)\<close>: the cast keeps the low byte of the word.\<close>

definition putc :: "vm \<Rightarrow> u16 \<Rightarrow> vm" where
  "putc s w = s\<lparr>stdout := stdout s @ [char_of (unat w)]\<rparr>"

text \<open>\<^verbatim>\<open>printf\<close> of a constant string.\<close>

definition printf :: "vm \<Rightarrow> string \<Rightarrow> vm" where
  "printf s str = s\<lparr>stdout := stdout s @ str\<rparr>"

text \<open>
  \<^verbatim>\<open>mem_read\<close>. The two stores to \<^verbatim>\<open>memory[MR_KBSR]\<close> and \<^verbatim>\<open>memory[MR_KBDR]\<close> have
  constant indices below \<open>UINT16_MAX\<close>; \<^verbatim>\<open>memory[addr]\<close> is indexed by the argument.
\<close>

definition mem_read :: "vm \<Rightarrow> u16 \<Rightarrow> fault + (u16 \<times> vm)" where
  "mem_read s addr =
     (let s' =
        (if addr = MR_KBSR then
           (case check_key s of
              (True, s1) \<Rightarrow>
                (let s2 = s1\<lparr>memory := (memory s1)(unat MR_KBSR := push_bit 15 1)\<rparr>;
                     (c, s3) = getchar s2
                 in s3\<lparr>memory := (memory s3)(unat MR_KBDR := word_of_int c)\<rparr>)
            | (False, s1) \<Rightarrow> s1\<lparr>memory := (memory s1)(unat MR_KBSR := 0)\<rparr>)
         else s)
      in if unat addr < UINT16_MAX then Inr (memory s' (unat addr), s') else Inl OutOfBounds)"

text \<open>\<^verbatim>\<open>mem_write\<close>.\<close>

definition mem_write :: "vm \<Rightarrow> u16 \<Rightarrow> u16 \<Rightarrow> fault + vm" where
  "mem_write s addr val =
     (if unat addr < UINT16_MAX then Inr (s\<lparr>memory := (memory s)(unat addr := val)\<rparr>)
      else Inl OutOfBounds)"

subsection \<open>Operation functions\<close>

text \<open>
  Each handler reads the global state and the instruction word and leaves the new
  state. Register numbers are three-bit fields of the instruction, so they index
  \<^verbatim>\<open>reg\<close> below \<open>R_COUNT\<close>. Sums and differences of \<^verbatim>\<open>uint16_t\<close> values wrap to 16 bits
  when they are stored or passed as a \<^verbatim>\<open>uint16_t\<close>.
\<close>

definition and_instr :: "vm \<Rightarrow> u16 \<Rightarrow> fault + vm" where
  "and_instr s instruction =
     (let dr = drop_bit 9 instruction AND 0x7;
          sr1 = drop_bit 6 instruction AND 0x7;
          immediate_flag = drop_bit 5 instruction AND 0x1
      in if immediate_flag \<noteq> 0 then
           (let immediate = sign_extend (instruction AND 0x1F) 5
            in update_flags (s\<lparr>reg := (reg s)(unat dr := reg s (unat sr1) AND immediate)\<rparr>) dr)
         else
           (let sr2 = instruction AND 0x7
            in update_flags
                 (s\<lparr>reg := (reg s)(unat dr := reg s (unat sr1) AND reg s (unat sr2))\<rparr>) dr))"

definition not_instr :: "vm \<Rightarrow> u16 \<Rightarrow> fault + vm" where
  "not_instr s instruction =
     (let dr = drop_bit 9 instruction AND 0x7;
          sr = drop_bit 6 instruction AND 0x7
      in update_flags (s\<lparr>reg := (reg s)(unat dr := NOT (reg s (unat sr)))\<rparr>) dr)"

definition add_instr :: "vm \<Rightarrow> u16 \<Rightarrow> fault + vm" where
  "add_instr s instruction =
     (let dr = drop_bit 9 instruction AND 0x7;
          r1 = drop_bit 6 instruction AND 0x7;
          immediate_flag = drop_bit 5 instruction AND 0x1
      in if immediate_flag \<noteq> 0 then
           (let immediate = sign_extend (instruction AND 0x1F) 5
            in update_flags (s\<lparr>reg := (reg s)(unat dr := reg s (unat r1) + immediate)\<rparr>) dr)
         else
           (let r2 = instruction AND 0x7
            in update_flags
                 (s\<lparr>reg := (reg s)(unat dr := reg s (unat r1) + reg s (unat r2))\<rparr>) dr))"

definition br :: "vm \<Rightarrow> u16 \<Rightarrow> vm" where
  "br s instruction =
     (let offset = sign_extend (instruction AND 0x1FF) 9;
          cond_flag = drop_bit 9 instruction AND 0x7
      in if cond_flag AND reg s R_COND \<noteq> 0
         then s\<lparr>reg := (reg s)(R_PC := reg s R_PC + offset)\<rparr>
         else s)"

definition jmp :: "vm \<Rightarrow> u16 \<Rightarrow> vm" where
  "jmp s instruction =
     (let sr = drop_bit 6 instruction AND 0x7
      in s\<lparr>reg := (reg s)(R_PC := reg s (unat sr))\<rparr>)"

definition jsr :: "vm \<Rightarrow> u16 \<Rightarrow> vm" where
  "jsr s instruction =
     (let offset_flag = drop_bit 11 instruction AND 0x1;
          s1 = s\<lparr>reg := (reg s)(R_R7 := reg s R_PC)\<rparr>
      in if offset_flag \<noteq> 0 then
           (let offset = sign_extend (instruction AND 0x7FF) 11
            in s1\<lparr>reg := (reg s1)(R_PC := reg s1 R_PC + offset)\<rparr>)
         else
           (let sr = drop_bit 6 instruction AND 0x7
            in s1\<lparr>reg := (reg s1)(R_PC := reg s1 (unat sr))\<rparr>))"

definition ld :: "vm \<Rightarrow> u16 \<Rightarrow> fault + vm" where
  "ld s instruction =
     (let dr = drop_bit 9 instruction AND 0x7;
          offset = sign_extend (instruction AND 0x1FF) 9
      in case mem_read s (reg s R_PC + offset) of
           Inl e \<Rightarrow> Inl e
         | Inr (v, s1) \<Rightarrow> update_flags (s1\<lparr>reg := (reg s1)(unat dr := v)\<rparr>) dr)"

definition st :: "vm \<Rightarrow> u16 \<Rightarrow> fault + vm" where
  "st s instruction =
     (let sr = drop_bit 9 instruction AND 0x7;
          offset = sign_extend (instruction AND 0x1FF) 9
      in mem_write s (reg s R_PC + offset) (reg s (unat sr)))"

definition lea :: "vm \<Rightarrow> u16 \<Rightarrow> fault + vm" where
  "lea s instruction =
     (let dr = drop_bit 9 instruction AND 0x7;
          offset = sign_extend (instruction AND 0x1FF) 9
      in update_flags (s\<lparr>reg := (reg s)(unat dr := reg s R_PC + offset)\<rparr>) dr)"

definition ldi :: "vm \<Rightarrow> u16 \<Rightarrow> fault + vm" where
  "ldi s instruction =
     (let dr = drop_bit 9 instruction AND 0x7;
          offset = sign_extend (instruction AND 0x1FF) 9
      in case mem_read s (reg s R_PC + offset) of
           Inl e \<Rightarrow> Inl e
         | Inr (p, s1) \<Rightarrow>
             (case mem_read s1 p of
                Inl e \<Rightarrow> Inl e
              | Inr (v, s2) \<Rightarrow> update_flags (s2\<lparr>reg := (reg s2)(unat dr := v)\<rparr>) dr))"

definition sti :: "vm \<Rightarrow> u16 \<Rightarrow> fault + vm" where
  "sti s instruction =
     (let sr = drop_bit 9 instruction AND 0x7;
          offset = sign_extend (instruction AND 0x1FF) 9
      in case mem_read s (reg s R_PC + offset) of
           Inl e \<Rightarrow> Inl e
         | Inr (p, s1) \<Rightarrow> mem_write s1 p (reg s1 (unat sr)))"

definition ldr :: "vm \<Rightarrow> u16 \<Rightarrow> fault + vm" where
  "ldr s instruction =
     (let dr = drop_bit 9 instruction AND 0x7;
          r1 = drop_bit 6 instruction AND 0x7;
          offset = sign_extend (instruction AND 0x3F) 6
      in case mem_read s (reg s (unat r1) + offset) of
           Inl e \<Rightarrow> Inl e
         | Inr (v, s1) \<Rightarrow> update_flags (s1\<lparr>reg := (reg s1)(unat dr := v)\<rparr>) dr)"

definition str :: "vm \<Rightarrow> u16 \<Rightarrow> fault + vm" where
  "str s instruction =
     (let sr = drop_bit 9 instruction AND 0x7;
          r1 = drop_bit 6 instruction AND 0x7;
          offset = sign_extend (instruction AND 0x3F) 6
      in mem_write s (reg s (unat r1) + offset) (reg s (unat sr)))"

definition rti :: "vm \<Rightarrow> u16 \<Rightarrow> fault + vm" where
  "rti s instruction = Inl Abort"

definition res :: "vm \<Rightarrow> u16 \<Rightarrow> fault + vm" where
  "res s instruction = Inl Abort"

subsection \<open>Trap functions\<close>

definition trap_getc :: "vm \<Rightarrow> vm" where
  "trap_getc s = (let (c, s1) = getchar s in s1\<lparr>reg := (reg s1)(R_R0 := word_of_int c)\<rparr>)"

definition trap_out :: "vm \<Rightarrow> vm" where
  "trap_out s = putc s (reg s R_R0)"

text \<open>
  The loop of \<^verbatim>\<open>trap_puts\<close>: \<open>c\<close> is the index of the cell the pointer \<^verbatim>\<open>c\<close> is at. The
  pointer is not a \<^verbatim>\<open>uint16_t\<close>: it does not wrap, it runs off the end of the array.
\<close>

function trap_puts_loop :: "vm \<Rightarrow> nat \<Rightarrow> fault + vm" where
  "trap_puts_loop s c =
     (if c < UINT16_MAX then
        (if memory s c \<noteq> 0 then trap_puts_loop (putc s (memory s c)) (Suc c) else Inr s)
      else Inl OutOfBounds)"
  by pat_completeness auto
termination
  by (relation "measure (\<lambda>(s, c). UINT16_MAX - c)") auto

declare trap_puts_loop.simps [simp del]

definition trap_puts :: "vm \<Rightarrow> fault + vm" where
  "trap_puts s = trap_puts_loop s (unat (reg s R_R0))"

definition trap_in :: "vm \<Rightarrow> vm" where
  "trap_in s =
     (let s0 = printf s ''Enter a character: '';
          (c, s1) = getchar s0
      in s1\<lparr>reg := (reg s1)(R_R0 := word_of_int c)\<rparr>)"

function trap_putsp_loop :: "vm \<Rightarrow> nat \<Rightarrow> fault + vm" where
  "trap_putsp_loop s c =
     (if c < UINT16_MAX then
        (if memory s c \<noteq> 0 then
           (let char1 = memory s c AND 0xFF;
                s1 = putc s char1;
                char2 = drop_bit 8 (memory s c);
                s2 = (if char2 \<noteq> 0 then putc s1 char2 else s1)
            in trap_putsp_loop s2 (Suc c))
         else Inr s)
      else Inl OutOfBounds)"
  by pat_completeness auto
termination
  by (relation "measure (\<lambda>(s, c). UINT16_MAX - c)") auto

declare trap_putsp_loop.simps [simp del]

definition trap_putsp :: "vm \<Rightarrow> fault + vm" where
  "trap_putsp s = trap_putsp_loop s (unat (reg s R_R0))"

definition trap_halt :: "vm \<Rightarrow> vm" where
  "trap_halt s = (printf s (''Halting execution'' @ [CHR 0x0A]))\<lparr>running := 0\<rparr>"

text \<open>\<^verbatim>\<open>trap\<close>: a \<^verbatim>\<open>switch\<close> with no \<^verbatim>\<open>default\<close>.\<close>

definition trap :: "vm \<Rightarrow> u16 \<Rightarrow> fault + vm" where
  "trap s instruction =
     (let trapvect = instruction AND 0xFF
      in if trapvect = TRAP_PUTS then trap_puts s
         else if trapvect = TRAP_GETC then Inr (trap_getc s)
         else if trapvect = TRAP_OUT then Inr (trap_out s)
         else if trapvect = TRAP_IN then Inr (trap_in s)
         else if trapvect = TRAP_PUTSP then trap_putsp s
         else if trapvect = TRAP_HALT then Inr (trap_halt s)
         else Inr s)"

subsection \<open>The run loop of \<^verbatim>\<open>main\<close>\<close>

text \<open>
  One turn of the loop: \<^verbatim>\<open>mem_read(reg[R_PC]++)\<close> reads at the old program counter
  after the counter has been incremented, then the \<^verbatim>\<open>switch\<close> on the top four bits.
\<close>

definition step :: "vm \<Rightarrow> fault + vm" where
  "step s =
     (let pc = reg s R_PC;
          s0 = s\<lparr>reg := (reg s)(R_PC := pc + 1)\<rparr>
      in case mem_read s0 pc of
           Inl e \<Rightarrow> Inl e
         | Inr (instruction, s1) \<Rightarrow>
             (let op = drop_bit 12 instruction
              in if op = OP_BR then Inr (br s1 instruction)
                 else if op = OP_ADD then add_instr s1 instruction
                 else if op = OP_LD then ld s1 instruction
                 else if op = OP_ST then st s1 instruction
                 else if op = OP_JSR then Inr (jsr s1 instruction)
                 else if op = OP_AND then and_instr s1 instruction
                 else if op = OP_LDR then ldr s1 instruction
                 else if op = OP_STR then str s1 instruction
                 else if op = OP_RTI then rti s1 instruction
                 else if op = OP_NOT then not_instr s1 instruction
                 else if op = OP_LDI then ldi s1 instruction
                 else if op = OP_STI then sti s1 instruction
                 else if op = OP_JMP then Inr (jmp s1 instruction)
                 else if op = OP_RES then res s1 instruction
                 else if op = OP_LEA then lea s1 instruction
                 else if op = OP_TRAP then trap s1 instruction
                 else Inl Abort))"

text \<open>
  \<^verbatim>\<open>while (running)\<close>, cut off after \<open>n\<close> turns: the state the loop has reached when it
  stops or when the \<open>n\<close> turns are used up, or the fault that ended the process.
\<close>

fun run :: "nat \<Rightarrow> vm \<Rightarrow> fault + vm" where
  "run 0 s = Inr s"
| "run (Suc n) s =
     (if running s \<noteq> 0 then
        (case step s of Inl e \<Rightarrow> Inl e | Inr s' \<Rightarrow> run n s')
      else Inr s)"

text \<open>A global array that has not been assigned: every cell is zero.\<close>

definition zeroed :: "nat \<Rightarrow> u16" where
  "zeroed i = 0"

text \<open>
  The state \<^verbatim>\<open>main\<close> enters the loop with: \<^verbatim>\<open>reg\<close> is a global, so it starts as zeros,
  and only \<^verbatim>\<open>reg[R_PC] = PC_START\<close> and \<^verbatim>\<open>running = 1\<close> are assigned. What the image
  files left in \<^verbatim>\<open>memory\<close> and what the terminal will answer are parameters.
\<close>

definition PC_START :: u16 where
  "PC_START = 0x3000"

definition boot :: "(nat \<Rightarrow> u16) \<Rightarrow> bool list \<Rightarrow> 8 word list \<Rightarrow> vm" where
  "boot mem polls input =
     \<lparr>memory = mem, reg = zeroed(R_PC := PC_START), running = 1,
      key_polls = polls, stdin = input, stdout = []\<rparr>"

section \<open>Properties\<close>

subsection \<open>Constants and bit fields\<close>

lemmas reg_names = R_R0_def R_R1_def R_R2_def R_R3_def R_R4_def R_R5_def R_R6_def R_R7_def
  R_PC_def R_COND_def R_COUNT_def

lemmas flag_names = FL_POS_def FL_ZRO_def FL_NEG_def

lemmas op_names = OP_BR_def OP_ADD_def OP_LD_def OP_ST_def OP_JSR_def OP_AND_def OP_LDR_def
  OP_STR_def OP_RTI_def OP_NOT_def OP_LDI_def OP_STI_def OP_JMP_def OP_RES_def OP_LEA_def
  OP_TRAP_def

lemmas trap_names = TRAP_GETC_def TRAP_OUT_def TRAP_PUTS_def TRAP_IN_def TRAP_PUTSP_def
  TRAP_HALT_def

lemmas mr_names = MR_KBSR_def MR_KBDR_def

text \<open>The test \<^verbatim>\<open>(x >> n) & 1\<close> reads bit \<open>n\<close>.\<close>

lemma shift_and_one_is_bit: "(drop_bit n (x::u16) AND 1 \<noteq> 0) = bit x n"
  by (simp add: and_one_eq bit_iff_odd_drop_bit odd_iff_mod_2_eq_one)

text \<open>The test \<^verbatim>\<open>reg[r] >> 15\<close> reads bit 15.\<close>

lemma shift_15_is_top_bit: "(drop_bit 15 (w::u16) \<noteq> 0) = bit w 15"
proof
  assume "drop_bit 15 w \<noteq> 0"
  then obtain i where "bit (drop_bit 15 w) i" by (auto simp: bit_eq_iff)
  then have b: "bit w (15 + i)" by (simp add: bit_drop_bit_eq)
  then have "15 + i < 16" using bit_imp_le_length[of w "15 + i"] by simp
  then have "i = 0" by simp
  with b show "bit w 15" by simp
next
  assume "bit w 15"
  then have "bit (drop_bit 15 w) 0" by (simp add: bit_drop_bit_eq)
  then show "drop_bit 15 w \<noteq> 0" by auto
qed

lemma int_ffff_is_mask: "(0xFFFF :: int) = mask 16"
  by (simp add: mask_eq_exp_minus_1)

text \<open>Cut to 16 bits, \<^verbatim>\<open>0xFFFF << n\<close> is the word with exactly the bits from \<open>n\<close> up set.\<close>

lemma shifted_ffff: "n \<le> 16 \<Longrightarrow> (word_of_int (push_bit n (0xFFFF :: int)) :: u16) = NOT (mask n)"
  by (rule bit_word_eqI) (auto simp: bit_simps int_ffff_is_mask)

lemma sign_extend_eq:
  "0 < n \<Longrightarrow> n \<le> 16 \<Longrightarrow>
   sign_extend x (int n) = (if bit x (n - 1) then x OR NOT (mask n) else x)"
  by (simp add: sign_extend_def shift_and_one_is_bit shifted_ffff nat_diff_distrib')

lemma field_high_bits_clear: "(x::u16) < 2 ^ n \<Longrightarrow> n \<le> i \<Longrightarrow> \<not> bit x i"
proof
  assume a: "x < 2 ^ n" "n \<le> i" "bit x i"
  from a(1) have "x AND mask n = x" by (rule less_mask_eq)
  with a(3) have "bit (x AND mask n) i" by (simp only:)
  then have "i < n" by (simp add: bit_and_iff bit_mask_iff)
  with a(2) show False by simp
qed

lemma sign_extend_bit:
  assumes n: "0 < n" "n \<le> 16" and x: "x < 2 ^ n" and i: "i < 16"
  shows "bit (sign_extend x (int n)) i = bit x (if i < n then i else n - 1)"
proof (cases "i < n")
  case True
  then show ?thesis using n by (simp add: sign_extend_eq bit_simps)
next
  case False
  then have "\<not> bit x i" using x by (simp add: field_high_bits_clear)
  then show ?thesis using n i False by (simp add: sign_extend_eq bit_simps)
qed

text \<open>Sign extension of the low \<open>n\<close> bits of an instruction word.\<close>

lemma sign_extend_field:
  assumes n: "0 < n" "n \<le> 16"
  shows "sign_extend (w AND mask n) (int n) = signed_take_bit (n - 1) w"
proof (rule bit_word_eqI)
  fix i
  assume i: "i < LENGTH(16)"
  have *: "min (n - Suc 0) i = (if i < n then i else n - 1)"
    using n by (auto simp: min_def)
  show "bit (sign_extend (w AND mask n) (int n)) i = bit (signed_take_bit (n - 1) w) i"
    using n i by (auto simp: sign_extend_eq bit_simps *)
qed

text \<open>Adding a word is adding its two's-complement value modulo 65536.\<close>

lemma uint_add_sint: "uint (a + b :: u16) = (uint a + sint b) mod 65536"
proof -
  have "uint (word_of_int (uint a + sint b) :: u16) = (uint a + sint b) mod 65536"
    by (simp only: uint_word_of_int) simp
  moreover have "(word_of_int (uint a + sint b) :: u16) = a + b"
    by simp
  ultimately show ?thesis by (simp only:)
qed

lemma x7_is_mask: "(0x7::u16) = mask 3"
  by (simp add: mask_eq_exp_minus_1)

lemma x1ff_is_mask: "(0x1FF::u16) = mask 9"
  by (simp add: mask_eq_exp_minus_1)

text \<open>The 9-bit offset of an instruction, sign-extended, and its value as an integer.\<close>

lemma offset9: "sign_extend (w AND 0x1FF) 9 = signed_take_bit 8 w"
  using sign_extend_field [of 9 w] by (simp add: x1ff_is_mask)

lemma sint_signed_take_bit_8: "sint (signed_take_bit 8 w :: u16) = signed_take_bit 8 (uint w)"
  by (rule bit_eqI) (auto simp: bit_simps min_def)

text \<open>The cast \<^verbatim>\<open>(uint16_t)\<close> of what \<^verbatim>\<open>getchar\<close> returns.\<close>

lemma minus_one_u16: "(- 1 :: u16) = 0xFFFF"
  by simp

lemma byte_high_zero: "drop_bit 8 (ucast (c :: 8 word) :: u16) = 0"
proof (rule bit_word_eqI)
  fix n
  assume "n < LENGTH(16)"
  have "\<not> bit c (8 + n)"
    using bit_imp_le_length [of c "8 + n"] by auto
  then show "bit (drop_bit 8 (ucast c :: u16)) n = bit (0 :: u16) n"
    by (simp add: bit_simps)
qed

lemma byte_uint: "uint (ucast (c :: 8 word) :: u16) = uint c"
  using uint_lt2p [of c] by (simp add: unsigned_ucast_eq take_bit_int_eq_self_iff)

subsection \<open>Sign extension\<close>

text \<open>
  Claim C5. For a field \<open>x\<close> of \<open>n\<close> bits, \<open>n\<close> one of 5, 6, 9 and 11, every bit \<open>i\<close> of the
  16-bit result of \<open>sign_extend x n\<close> below \<open>n\<close> is bit \<open>i\<close> of \<open>x\<close> and every bit from
  \<open>n\<close> up is the top bit \<open>n - 1\<close> of \<open>x\<close>. The 5-bit pattern 11111 extends to 0xFFFF,
  which is -1 in two's complement, and the 5-bit pattern 00011 extends to 3.
\<close>

theorem sign_extend_replicates_top_bit:
  assumes "n \<in> {5, 6, 9, 11}" and "x < 2 ^ nat n" and "i < 16"
  shows "bit (sign_extend x n) i = bit x (if i < nat n then i else nat n - 1)
         \<and> sign_extend 0x1F 5 = 0xFFFF \<and> sint (sign_extend 0x1F 5) = - 1
         \<and> sign_extend 3 5 = 3"
proof -
  from assms(1) have n: "0 < nat n" "nat n \<le> 16" "int (nat n) = n" by auto
  have "bit (sign_extend x (int (nat n))) i = bit x (if i < nat n then i else nat n - 1)"
    using n(1,2) assms(2,3) by (rule sign_extend_bit)
  then have "bit (sign_extend x n) i = bit x (if i < nat n then i else nat n - 1)"
    by (simp only: n(3))
  moreover have "sign_extend 0x1F 5 = 0xFFFF" by (simp add: sign_extend_def)
  moreover have "sint (sign_extend 0x1F 5) = - 1" by (simp add: sign_extend_def)
  moreover have "sign_extend 3 5 = 3" by (simp add: sign_extend_def)
  ultimately show ?thesis by (simp only: simp_thms)
qed

theorem sign_extend_replicates_top_bit_witness:
  "(9::int) \<in> {5, 6, 9, 11} \<and> (0x1AB::u16) < 2 ^ nat 9 \<and> (12::nat) < 16
   \<and> bit (sign_extend 0x1AB 9) 12 = bit (0x1AB::u16) 8
   \<and> sign_extend 0x1AB 9 = 0xFFAB"
  using sign_extend_replicates_top_bit [of 9 "0x1AB" 12]
  by (simp add: sign_extend_def)

subsection \<open>Condition flags\<close>

text \<open>
  A register number taken from a three-bit field of the instruction is below 8, so the
  handlers index \<^verbatim>\<open>reg\<close> inside the array and their call of \<open>update_flags\<close> does not fault.
\<close>

lemma reg_field_in_bounds: "unat (w AND 0x7 :: u16) < R_COUNT"
proof -
  have "unat (take_bit 3 w) < 2 ^ 3"
    by (simp only: unsigned_take_bit_eq take_bit_nat_less_exp)
  then show ?thesis
    by (simp add: x7_is_mask take_bit_eq_mask R_COUNT_def)
qed

lemma update_flags_on_field: "update_flags s (w AND 0x7) \<noteq> Inl OutOfBounds"
  using reg_field_in_bounds [of w] by (simp add: update_flags_def)

text \<open>
  Claim C4. For every register \<open>r\<close> of the register array and every value it holds,
  \<open>update_flags r\<close> changes nothing but the condition flag, and the flag it sets is
  \<open>FL_ZRO\<close> exactly when the value is 0, \<open>FL_NEG\<close> exactly when bit 15 of the value is
  1, and \<open>FL_POS\<close> exactly when neither holds; the three flag values are distinct, so
  exactly one of the three outcomes holds for every word.
\<close>

theorem update_flags_three_way:
  assumes "unat r < R_COUNT"
  shows "\<exists>f. update_flags s r = Inr (s\<lparr>reg := (reg s)(R_COND := f)\<rparr>)
           \<and> (f = FL_ZRO \<longleftrightarrow> reg s (unat r) = 0)
           \<and> (f = FL_NEG \<longleftrightarrow> bit (reg s (unat r)) 15)
           \<and> (f = FL_POS \<longleftrightarrow> reg s (unat r) \<noteq> 0 \<and> \<not> bit (reg s (unat r)) 15)
           \<and> f \<in> {FL_ZRO, FL_NEG, FL_POS}
           \<and> FL_ZRO \<noteq> FL_NEG \<and> FL_ZRO \<noteq> FL_POS \<and> FL_NEG \<noteq> FL_POS"
proof (cases "reg s (unat r) = 0")
  case True
  then show ?thesis
    using assms by (simp add: update_flags_def flag_names)
next
  case nz: False
  show ?thesis
  proof (cases "bit (reg s (unat r)) 15")
    case True
    then show ?thesis
      using assms nz by (simp add: update_flags_def flag_names shift_15_is_top_bit)
  next
    case False
    then show ?thesis
      using assms nz by (simp add: update_flags_def flag_names shift_15_is_top_bit)
  qed
qed

theorem update_flags_three_way_witness:
  "unat (8 :: u16) < R_COUNT
   \<and> update_flags (boot zeroed [] []) 8
       = Inr ((boot zeroed [] [])\<lparr>reg := (reg (boot zeroed [] []))(R_COND := FL_POS)\<rparr>)"
  using update_flags_three_way [of 8 "boot zeroed [] []"]
  by (simp add: update_flags_def boot_def zeroed_def PC_START_def reg_names flag_names)

subsection \<open>Memory and the keyboard registers\<close>

text \<open>The array has a cell for every address but the last one.\<close>

lemma in_bounds_iff: "unat (addr :: u16) < UINT16_MAX \<longleftrightarrow> addr \<noteq> 0xFFFF"
proof -
  have "unat addr < 65536"
    using unsigned_less [of addr] by simp
  moreover have "addr = 0xFFFF \<longleftrightarrow> unat addr = 65535"
    by (simp add: word_eq_iff_unsigned [where ?'a = nat])
  ultimately show ?thesis
    by (auto simp: UINT16_MAX_def)
qed

text \<open>A read anywhere but at the status register is a plain look-up.\<close>

lemma mem_read_plain:
  "addr \<noteq> MR_KBSR \<Longrightarrow>
   mem_read s addr = (if addr = 0xFFFF then Inl OutOfBounds else Inr (memory s (unat addr), s))"
  by (simp add: mem_read_def in_bounds_iff)

text \<open>A read at the status register polls the keyboard first.\<close>

lemma mem_read_status:
  "mem_read s MR_KBSR =
     (case check_key s of
        (True, s1) \<Rightarrow>
          (case getchar s1 of
             (c, s2) \<Rightarrow>
               Inr (0x8000, s2\<lparr>memory := (memory s)(0xFE00 := 0x8000, 0xFE02 := word_of_int c)\<rparr>))
      | (False, s1) \<Rightarrow> Inr (0, s1\<lparr>memory := (memory s)(0xFE00 := 0)\<rparr>))"
  by (auto simp: mem_read_def UINT16_MAX_def Let_def mr_names check_key_def getchar_def
      split: list.splits bool.splits prod.splits)

lemma mem_read_frame:
  "mem_read s addr = Inr (v, s') \<Longrightarrow>
   reg s' = reg s \<and> running s' = running s \<and> stdout s' = stdout s"
  by (auto simp: mem_read_def check_key_def getchar_def Let_def
      split: if_splits list.splits bool.splits prod.splits)

lemma mem_write_frame:
  "mem_write s addr v = Inr s' \<Longrightarrow> reg s' = reg s \<and> running s' = running s"
  by (auto simp: mem_write_def split: if_splits)

text \<open>
  Reading twice: away from the status register and below 0xFFFF a read returns the
  cell and the state it was given, so a second read returns the same again.
\<close>

lemma mem_read_plain_in_bounds:
  "addr \<noteq> MR_KBSR \<Longrightarrow> addr \<noteq> 0xFFFF \<Longrightarrow> mem_read s addr = Inr (memory s (unat addr), s)"
  by (simp add: mem_read_plain)

text \<open>Two reads of the status register while both polls report no key return 0 twice.\<close>

lemma mem_read_status_twice_no_key:
  assumes "\<not> fst (check_key s)" and "\<not> fst (check_key (snd (check_key s)))"
  shows "\<exists>s1 s2. mem_read s MR_KBSR = Inr (0, s1) \<and> mem_read s1 MR_KBSR = Inr (0, s2)"
proof -
  obtain s1 where 1: "mem_read s MR_KBSR = Inr (0, s1)" "key_polls s1 = key_polls (snd (check_key s))"
    using assms(1) by (auto simp: mem_read_status check_key_def split: list.splits)
  from 1(2) assms(2) have "\<not> fst (check_key s1)"
    by (simp add: check_key_def split: list.splits)
  then obtain s2 where "mem_read s1 MR_KBSR = Inr (0, s2)"
    by (auto simp: mem_read_status check_key_def split: list.splits)
  with 1(1) show ?thesis by blast
qed

text \<open>
  Claim C1. The array \<^verbatim>\<open>memory\<close> is declared with \<open>UINT16_MAX\<close> cells, which is 65535 and not
  65536: the address 0xFFFF is the index one past its last cell, and both \<open>mem_read\<close> and
  \<open>mem_write\<close> at that address leave the array.
\<close>

theorem last_address_is_outside_memory:
  "UINT16_MAX = 65535 \<and> unat (0xFFFF :: u16) = UINT16_MAX
   \<and> mem_read s 0xFFFF = Inl OutOfBounds
   \<and> mem_write s 0xFFFF val = Inl OutOfBounds"
  by (simp add: mem_read_def mem_write_def UINT16_MAX_def mr_names)

text \<open>
  Claim C2. What \<open>mem_read\<close> does at every address. At the status address 0xFE00 it polls
  the keyboard; with a key ready it stores 0x8000, the word with bit 15 set, at 0xFE00
  and the character read at 0xFE02, otherwise it stores 0 at 0xFE00; it returns the word
  now at 0xFE00. At any other address but 0xFFFF it returns the stored word and the
  state is unchanged. At 0xFFFF there is no cell to return.
\<close>

theorem mem_read_at_every_address:
  "mem_read s addr =
     (if addr = MR_KBSR then
        (case check_key s of
           (True, s1) \<Rightarrow>
             (case getchar s1 of
                (c, s2) \<Rightarrow>
                  Inr (0x8000,
                       s2\<lparr>memory := (memory s)(0xFE00 := 0x8000, 0xFE02 := word_of_int c)\<rparr>))
         | (False, s1) \<Rightarrow> Inr (0, s1\<lparr>memory := (memory s)(0xFE00 := 0)\<rparr>))
      else if addr = 0xFFFF then Inl OutOfBounds
      else Inr (memory s (unat addr), s))
   \<and> MR_KBSR = 0xFE00 \<and> bit (0x8000 :: u16) 15"
  by (simp add: mem_read_status mem_read_plain) (simp add: mr_names)

text \<open>
  Claim C8. The address 0xFFFF is neither of the two device addresses, and a read there
  returns no value at all, so two reads do not return the same value twice.
\<close>

theorem read_at_last_address_returns_nothing:
  "(0xFFFF :: u16) \<notin> {MR_KBSR, MR_KBDR} \<and> (\<forall>v s1. mem_read s 0xFFFF \<noteq> Inr (v, s1))"
  by (simp add: mem_read_plain mr_names)

subsection \<open>Branch and jump to subroutine\<close>

text \<open>
  What a turn of the loop hands to a handler: the state the fetch returns, in which the
  program counter has been incremented already.
\<close>

lemma fetch_increments_pc:
  assumes "mem_read (t\<lparr>reg := (reg t)(R_PC := reg t R_PC + 1)\<rparr>) (reg t R_PC) = Inr (instruction, s)"
  shows "reg s = (reg t)(R_PC := reg t R_PC + 1)"
  using mem_read_frame [OF assms] by simp

lemma step_dispatch_br:
  assumes "mem_read (t\<lparr>reg := (reg t)(R_PC := reg t R_PC + 1)\<rparr>) (reg t R_PC) = Inr (instruction, s)"
    and "drop_bit 12 instruction = OP_BR"
  shows "step t = Inr (br s instruction)"
  using assms by (simp add: step_def Let_def op_names)

lemma step_dispatch_jsr:
  assumes "mem_read (t\<lparr>reg := (reg t)(R_PC := reg t R_PC + 1)\<rparr>) (reg t R_PC) = Inr (instruction, s)"
    and "drop_bit 12 instruction = OP_JSR"
  shows "step t = Inr (jsr s instruction)"
  using assms by (simp add: step_def Let_def op_names)

text \<open>
  Claim C6. For every BR instruction, with the three-bit mask in bits 11..9 and the
  offset in bits 8..0, executed in a state \<open>s\<close> whose program counter is the counter
  after the increment of the fetch: when the mask and the condition flag have a common
  bit, the program counter becomes that counter plus the sign-extended offset, modulo
  65536, and nothing else changes; otherwise the state is left as it is. In both cases
  the memory, the eight general registers and the condition flag are unchanged. The
  state \<open>s\<close> the handler runs on in a turn of the loop from \<open>t\<close> is the one the fetch
  returned, with the program counter of \<open>t\<close> plus one.
\<close>

theorem br_taken_iff_mask_meets_flag:
  "br s instruction =
     (if take_bit 3 (drop_bit 9 instruction) AND reg s R_COND \<noteq> 0
      then s\<lparr>reg := (reg s)(R_PC := reg s R_PC + signed_take_bit 8 instruction)\<rparr>
      else s)
   \<and> uint (reg s R_PC + signed_take_bit 8 instruction)
       = (uint (reg s R_PC) + signed_take_bit 8 (uint instruction)) mod 65536
   \<and> memory (br s instruction) = memory s
   \<and> map (reg (br s instruction)) [R_R0, R_R1, R_R2, R_R3, R_R4, R_R5, R_R6, R_R7, R_COND]
       = map (reg s) [R_R0, R_R1, R_R2, R_R3, R_R4, R_R5, R_R6, R_R7, R_COND]
   \<and> (mem_read (t\<lparr>reg := (reg t)(R_PC := reg t R_PC + 1)\<rparr>) (reg t R_PC) = Inr (instruction, s)
        \<and> drop_bit 12 instruction = OP_BR
       \<longrightarrow> step t = Inr (br s instruction) \<and> reg s R_PC = reg t R_PC + 1)"
proof -
  have "step t = Inr (br s instruction) \<and> reg s R_PC = reg t R_PC + 1"
    if "mem_read (t\<lparr>reg := (reg t)(R_PC := reg t R_PC + 1)\<rparr>) (reg t R_PC) = Inr (instruction, s)
        \<and> drop_bit 12 instruction = OP_BR"
    using that step_dispatch_br [of t instruction s] fetch_increments_pc [of t instruction s]
    by simp
  then show ?thesis
    by (simp add: br_def offset9 x7_is_mask take_bit_eq_mask uint_add_sint
      sint_signed_take_bit_8 reg_names)
qed

text \<open>
  BRnzp with offset 5 at 0x3000, fetched with the flag \<open>FL_ZRO\<close>: the turn of the loop
  ends with the program counter at 0x3001 + 5.
\<close>

theorem br_taken_iff_mask_meets_flag_witness:
  "mem_read (\<lparr>memory = zeroed(0x3000 := 0x0E05),
             reg = zeroed(R_PC := 0x3000, R_COND := FL_ZRO),
             running = 1, key_polls = [], stdin = [], stdout = []\<rparr>
            \<lparr>reg := zeroed(R_PC := 0x3001, R_COND := FL_ZRO)\<rparr>) 0x3000
    = Inr (0x0E05, \<lparr>memory = zeroed(0x3000 := 0x0E05),
                    reg = zeroed(R_PC := 0x3001, R_COND := FL_ZRO),
                    running = 1, key_polls = [], stdin = [], stdout = []\<rparr>)
   \<and> drop_bit 12 (0x0E05 :: u16) = OP_BR
   \<and> step \<lparr>memory = zeroed(0x3000 := 0x0E05),
            reg = zeroed(R_PC := 0x3000, R_COND := FL_ZRO),
            running = 1, key_polls = [], stdin = [], stdout = []\<rparr>
     = Inr \<lparr>memory = zeroed(0x3000 := 0x0E05),
            reg = zeroed(R_PC := 0x3006, R_COND := FL_ZRO),
            running = 1, key_polls = [], stdin = [], stdout = []\<rparr>"
  using br_taken_iff_mask_meets_flag [of
      "\<lparr>memory = zeroed(0x3000 := 0x0E05),
        reg = zeroed(R_PC := 0x3001, R_COND := FL_ZRO),
        running = 1, key_polls = [], stdin = [], stdout = []\<rparr>"
      "0x0E05"
      "\<lparr>memory = zeroed(0x3000 := 0x0E05),
        reg = zeroed(R_PC := 0x3000, R_COND := FL_ZRO),
        running = 1, key_polls = [], stdin = [], stdout = []\<rparr>"]
  by (simp add: mem_read_def zeroed_def reg_names mr_names UINT16_MAX_def op_names
      flag_names fun_eq_iff)

text \<open>
  Claim C9. For every JSRR instruction (bit 11 is 0) whose base register field, bits
  8..6, is 7: the handler stores the program counter in R7 first and reads the base
  register afterwards, so the new program counter is the counter it has just saved,
  whatever R7 held before. In a turn of the loop from \<open>t\<close> that counter is the program
  counter of \<open>t\<close> plus one: the turn ends with it in both R7 and the program counter.
\<close>

theorem jsrr_r7_jumps_to_saved_pc:
  assumes "\<not> bit instruction 11" and "take_bit 3 (drop_bit 6 instruction) = 7"
  shows "jsr s instruction = s\<lparr>reg := (reg s)(R_R7 := reg s R_PC)\<rparr>
         \<and> reg (jsr s instruction) R_PC = reg s R_PC
         \<and> reg (jsr s instruction) R_R7 = reg s R_PC
         \<and> (mem_read (t\<lparr>reg := (reg t)(R_PC := reg t R_PC + 1)\<rparr>) (reg t R_PC)
               = Inr (instruction, s)
              \<and> drop_bit 12 instruction = OP_JSR
             \<longrightarrow> step t
                   = Inr (s\<lparr>reg := (reg t)(R_PC := reg t R_PC + 1, R_R7 := reg t R_PC + 1)\<rparr>))"
proof -
  from assms(2) have sr: "drop_bit 6 instruction AND 0x7 = 7"
    by (simp add: x7_is_mask take_bit_eq_mask)
  have fl: "drop_bit 11 instruction AND 1 = 0"
    using assms(1) shift_and_one_is_bit [of 11 instruction] by simp
  have "jsr s instruction = s\<lparr>reg := (reg s)(R_R7 := reg s R_PC, R_PC := reg s R_PC)\<rparr>"
    by (simp add: jsr_def sr fl reg_names)
  moreover have "(reg s)(R_R7 := reg s R_PC, R_PC := reg s R_PC) = (reg s)(R_R7 := reg s R_PC)"
    by (auto simp: reg_names)
  ultimately have h: "jsr s instruction = s\<lparr>reg := (reg s)(R_R7 := reg s R_PC)\<rparr>"
    by simp
  have "step t = Inr (s\<lparr>reg := (reg t)(R_PC := reg t R_PC + 1, R_R7 := reg t R_PC + 1)\<rparr>)"
    if "mem_read (t\<lparr>reg := (reg t)(R_PC := reg t R_PC + 1)\<rparr>) (reg t R_PC) = Inr (instruction, s)
        \<and> drop_bit 12 instruction = OP_JSR"
    using that step_dispatch_jsr [of t instruction s] fetch_increments_pc [of t instruction s] h
    by simp
  with h show ?thesis
    by (simp add: reg_names)
qed

text \<open>
  JSRR R7 at 0x3000 with 0x1234 in R7: the turn of the loop ends with 0x3001, not 0x1234,
  in the program counter.
\<close>

theorem jsrr_r7_jumps_to_saved_pc_witness:
  "\<not> bit (0x41C0 :: u16) 11 \<and> take_bit 3 (drop_bit 6 (0x41C0 :: u16)) = 7
   \<and> mem_read (\<lparr>memory = zeroed(0x3000 := 0x41C0),
                reg = zeroed(R_PC := 0x3000, R_R7 := 0x1234),
                running = 1, key_polls = [], stdin = [], stdout = []\<rparr>
               \<lparr>reg := zeroed(R_PC := 0x3001, R_R7 := 0x1234)\<rparr>) 0x3000
       = Inr (0x41C0, \<lparr>memory = zeroed(0x3000 := 0x41C0),
                       reg = zeroed(R_PC := 0x3001, R_R7 := 0x1234),
                       running = 1, key_polls = [], stdin = [], stdout = []\<rparr>)
   \<and> drop_bit 12 (0x41C0 :: u16) = OP_JSR
   \<and> step \<lparr>memory = zeroed(0x3000 := 0x41C0),
            reg = zeroed(R_PC := 0x3000, R_R7 := 0x1234),
            running = 1, key_polls = [], stdin = [], stdout = []\<rparr>
       = Inr \<lparr>memory = zeroed(0x3000 := 0x41C0),
              reg = zeroed(R_PC := 0x3001, R_R7 := 0x3001),
              running = 1, key_polls = [], stdin = [], stdout = []\<rparr>"
  using jsrr_r7_jumps_to_saved_pc [of "0x41C0"
      "\<lparr>memory = zeroed(0x3000 := 0x41C0),
        reg = zeroed(R_PC := 0x3001, R_R7 := 0x1234),
        running = 1, key_polls = [], stdin = [], stdout = []\<rparr>"
      "\<lparr>memory = zeroed(0x3000 := 0x41C0),
        reg = zeroed(R_PC := 0x3000, R_R7 := 0x1234),
        running = 1, key_polls = [], stdin = [], stdout = []\<rparr>"]
  by (simp add: mem_read_def zeroed_def reg_names mr_names UINT16_MAX_def op_names fun_eq_iff)

subsection \<open>Character input traps\<close>

text \<open>
  Claim C10. TRAP GETC and TRAP IN (which prints its prompt first) each overwrite the
  whole of register 0 with what \<^verbatim>\<open>getchar\<close> returned, cast to a word: a byte \<open>c\<close> of the
  input is stored as the word with value \<open>c\<close>, whose high byte is 0, and the end of the
  input, where \<^verbatim>\<open>getchar\<close> returns -1, stores 0xFFFF. Neither trap touches the condition
  flag.
\<close>

theorem getc_and_in_overwrite_r0:
  "trap s 0xF020 = Inr (trap_getc s) \<and> trap s 0xF023 = Inr (trap_in s)
   \<and> trap_getc s =
     (case stdin s of
        [] \<Rightarrow> s\<lparr>reg := (reg s)(R_R0 := 0xFFFF)\<rparr>
      | c # cs \<Rightarrow> s\<lparr>stdin := cs, reg := (reg s)(R_R0 := ucast c)\<rparr>)
   \<and> trap_in s =
     (case stdin s of
        [] \<Rightarrow> s\<lparr>stdout := stdout s @ ''Enter a character: '', reg := (reg s)(R_R0 := 0xFFFF)\<rparr>
      | c # cs \<Rightarrow> s\<lparr>stdout := stdout s @ ''Enter a character: '', stdin := cs,
                      reg := (reg s)(R_R0 := ucast c)\<rparr>)
   \<and> drop_bit 8 (ucast (b :: 8 word) :: u16) = 0
   \<and> uint (ucast (b :: 8 word) :: u16) = uint b
   \<and> reg (trap_getc s) R_COND = reg s R_COND
   \<and> reg (trap_in s) R_COND = reg s R_COND"
  by (simp add: trap_def trap_names trap_getc_def trap_in_def getchar_def printf_def reg_names
      byte_high_zero byte_uint minus_one_u16 [symmetric] split: list.splits)

subsection \<open>Traps\<close>

lemma trap_unknown:
  assumes "instruction AND 0xFF \<notin> {0x20, 0x21, 0x22, 0x23, 0x24, 0x25}"
  shows "trap s instruction = Inr s"
  using assms by (simp add: trap_def trap_names)

text \<open>What a fetch at the status register returns is never a TRAP instruction.\<close>

lemma fetch_from_status:
  assumes "mem_read s MR_KBSR = Inr (instruction, s1)"
  shows "instruction = 0x8000 \<or> instruction = 0"
  using assms by (auto simp: mem_read_status split: prod.splits bool.splits)

lemma step_dispatch_trap:
  assumes "mem_read (s\<lparr>reg := (reg s)(R_PC := reg s R_PC + 1)\<rparr>) (reg s R_PC) = Inr (instruction, s1)"
    and "drop_bit 12 instruction = OP_TRAP"
  shows "step s = trap s1 instruction"
  using assms by (simp add: step_def Let_def op_names)

text \<open>
  Claim C7. For every TRAP instruction whose low eight bits are none of 0x20..0x25, the
  handler \<open>trap\<close> returns the state it was given, without a fault: registers, memory,
  the running flag and the terminal are as before. A turn of the run loop that fetches
  such an instruction therefore only increments the program counter, and the loop goes
  on with the next instruction.
\<close>

theorem unknown_trap_vector_is_ignored:
  assumes "instruction AND 0xFF \<notin> {0x20, 0x21, 0x22, 0x23, 0x24, 0x25}"
    and "drop_bit 12 instruction = OP_TRAP"
  shows "trap s instruction = Inr s
    \<and> (mem_read (s\<lparr>reg := (reg s)(R_PC := reg s R_PC + 1)\<rparr>) (reg s R_PC) = Inr (instruction, s1)
        \<longrightarrow> step s = Inr (s\<lparr>reg := (reg s)(R_PC := reg s R_PC + 1)\<rparr>))"
proof (intro conjI impI)
  show "trap s instruction = Inr s"
    using assms(1) by (rule trap_unknown)
next
  let ?s0 = "s\<lparr>reg := (reg s)(R_PC := reg s R_PC + 1)\<rparr>"
  assume f: "mem_read ?s0 (reg s R_PC) = Inr (instruction, s1)"
  have "reg s R_PC \<noteq> MR_KBSR"
  proof
    assume "reg s R_PC = MR_KBSR"
    with f have "instruction = 0x8000 \<or> instruction = 0"
      using fetch_from_status [of ?s0 instruction s1] by simp
    with assms(2) show False
      by (auto simp: op_names)
  qed
  with f have "s1 = ?s0"
    by (simp add: mem_read_plain split: if_splits)
  moreover have "step s = trap s1 instruction"
    using f assms(2) by (rule step_dispatch_trap)
  ultimately show "step s = Inr ?s0"
    using trap_unknown [OF assms(1), of ?s0] by simp
qed

theorem unknown_trap_vector_is_ignored_witness:
  "(0xF0FF :: u16) AND 0xFF \<notin> {0x20, 0x21, 0x22, 0x23, 0x24, 0x25}
   \<and> drop_bit 12 (0xF0FF :: u16) = OP_TRAP
   \<and> mem_read ((boot (zeroed(0x3000 := 0xF0FF)) [] [])
                 \<lparr>reg := (reg (boot (zeroed(0x3000 := 0xF0FF)) [] []))(R_PC := 0x3001)\<rparr>) 0x3000
       = Inr (0xF0FF, (boot (zeroed(0x3000 := 0xF0FF)) [] [])
                 \<lparr>reg := (reg (boot (zeroed(0x3000 := 0xF0FF)) [] []))(R_PC := 0x3001)\<rparr>)
   \<and> trap (boot (zeroed(0x3000 := 0xF0FF)) [] []) 0xF0FF = Inr (boot (zeroed(0x3000 := 0xF0FF)) [] [])
   \<and> step (boot (zeroed(0x3000 := 0xF0FF)) [] [])
       = Inr ((boot (zeroed(0x3000 := 0xF0FF)) [] [])
                 \<lparr>reg := (reg (boot (zeroed(0x3000 := 0xF0FF)) [] []))(R_PC := 0x3001)\<rparr>)"
  using unknown_trap_vector_is_ignored [of "0xF0FF" "boot (zeroed(0x3000 := 0xF0FF)) [] []"
      "(boot (zeroed(0x3000 := 0xF0FF)) [] [])
         \<lparr>reg := (reg (boot (zeroed(0x3000 := 0xF0FF)) [] []))(R_PC := 0x3001)\<rparr>"]
  by (simp add: mem_read_def boot_def PC_START_def zeroed_def reg_names mr_names
      UINT16_MAX_def op_names)

subsection \<open>The condition flag along the run loop\<close>

text \<open>Whatever \<open>update_flags\<close> leaves in the flag register is one of the three flags.\<close>

lemma update_flags_sets: "update_flags s r = Inr s' \<Longrightarrow> reg s' R_COND \<in> {FL_NEG, FL_ZRO, FL_POS}"
  by (auto simp: update_flags_def split: if_splits)

text \<open>The output loops of PUTS and PUTSP write no register.\<close>

lemma trap_puts_loop_reg: "trap_puts_loop s c = Inr s' \<Longrightarrow> reg s' = reg s"
proof (induction s c rule: trap_puts_loop.induct)
  case (1 s c)
  show ?case
  proof (cases "c < UINT16_MAX \<and> memory s c \<noteq> 0")
    case True
    with "1.prems" have "trap_puts_loop (putc s (memory s c)) (Suc c) = Inr s'"
      by (simp add: trap_puts_loop.simps [of s c])
    with True have "reg s' = reg (putc s (memory s c))"
      by (intro "1.IH") auto
    then show ?thesis
      by (simp add: putc_def)
  next
    case False
    with "1.prems" show ?thesis
      by (auto simp: trap_puts_loop.simps [of s c] split: if_splits)
  qed
qed

lemma trap_putsp_loop_reg: "trap_putsp_loop s c = Inr s' \<Longrightarrow> reg s' = reg s"
proof (induction s c rule: trap_putsp_loop.induct)
  case (1 s c)
  show ?case
  proof (cases "c < UINT16_MAX \<and> memory s c \<noteq> 0")
    case True
    define s2 where "s2 = (if drop_bit 8 (memory s c) \<noteq> 0
        then putc (putc s (memory s c AND 0xFF)) (drop_bit 8 (memory s c))
        else putc s (memory s c AND 0xFF))"
    from True "1.prems" have "trap_putsp_loop s2 (Suc c) = Inr s'"
      by (simp add: trap_putsp_loop.simps [of s c] s2_def Let_def)
    with True have "reg s' = reg s2"
      by (intro "1.IH" [of "memory s c AND 0xFF" "putc s (memory s c AND 0xFF)"
            "drop_bit 8 (memory s c)"]) (auto simp: s2_def)
    then show ?thesis
      by (simp add: putc_def s2_def)
  next
    case False
    with "1.prems" show ?thesis
      by (auto simp: trap_putsp_loop.simps [of s c] split: if_splits)
  qed
qed

lemma trap_puts_cond: "trap_puts s = Inr s' \<Longrightarrow> reg s' R_COND = reg s R_COND"
  by (auto simp: trap_puts_def dest: trap_puts_loop_reg)

lemma trap_putsp_cond: "trap_putsp s = Inr s' \<Longrightarrow> reg s' R_COND = reg s R_COND"
  by (auto simp: trap_putsp_def dest: trap_putsp_loop_reg)

lemma trap_getc_cond: "reg (trap_getc s) R_COND = reg s R_COND"
  by (simp add: trap_getc_def getchar_def reg_names split: list.splits)

lemma trap_in_cond: "reg (trap_in s) R_COND = reg s R_COND"
  by (simp add: trap_in_def getchar_def printf_def Let_def reg_names split: list.splits)

lemma trap_out_cond: "reg (trap_out s) R_COND = reg s R_COND"
  by (simp add: trap_out_def putc_def)

lemma trap_halt_cond: "reg (trap_halt s) R_COND = reg s R_COND"
  by (simp add: trap_halt_def printf_def)

lemma trap_cond:
  assumes "trap s instruction = Inr s'"
  shows "reg s' R_COND = reg s R_COND"
proof -
  let ?v = "instruction AND 0xFF"
  consider "?v = TRAP_PUTS" | "?v = TRAP_GETC" | "?v = TRAP_OUT" | "?v = TRAP_IN"
    | "?v = TRAP_PUTSP" | "?v = TRAP_HALT"
    | "?v \<notin> {TRAP_PUTS, TRAP_GETC, TRAP_OUT, TRAP_IN, TRAP_PUTSP, TRAP_HALT}"
    by auto
  then show ?thesis
  proof cases
    case 1
    with assms have "trap_puts s = Inr s'" by (simp add: trap_def)
    then show ?thesis by (rule trap_puts_cond)
  next
    case 2
    with assms have "s' = trap_getc s" by (simp add: trap_def trap_names)
    then show ?thesis by (simp add: trap_getc_cond)
  next
    case 3
    with assms have "s' = trap_out s" by (simp add: trap_def trap_names)
    then show ?thesis by (simp add: trap_out_cond)
  next
    case 4
    with assms have "s' = trap_in s" by (simp add: trap_def trap_names)
    then show ?thesis by (simp add: trap_in_cond)
  next
    case 5
    with assms have "trap_putsp s = Inr s'" by (simp add: trap_def trap_names)
    then show ?thesis by (rule trap_putsp_cond)
  next
    case 6
    with assms have "s' = trap_halt s" by (simp add: trap_def trap_names)
    then show ?thesis by (simp add: trap_halt_cond)
  next
    case 7
    with assms have "s' = s" by (simp add: trap_def)
    then show ?thesis by simp
  qed
qed

text \<open>The handlers that do not call \<open>update_flags\<close> leave the flag register alone.\<close>

lemma br_cond: "reg (br s i) R_COND = reg s R_COND"
  by (simp add: br_def Let_def reg_names)

lemma jmp_cond: "reg (jmp s i) R_COND = reg s R_COND"
  by (simp add: jmp_def Let_def reg_names)

lemma jsr_cond: "reg (jsr s i) R_COND = reg s R_COND"
  by (simp add: jsr_def Let_def reg_names)

lemma st_cond: "st s i = Inr s' \<Longrightarrow> reg s' R_COND = reg s R_COND"
  by (auto simp: st_def Let_def dest: mem_write_frame)

lemma str_cond: "str s i = Inr s' \<Longrightarrow> reg s' R_COND = reg s R_COND"
  by (auto simp: str_def Let_def dest: mem_write_frame)

lemma sti_cond: "sti s i = Inr s' \<Longrightarrow> reg s' R_COND = reg s R_COND"
  by (auto simp: sti_def Let_def dest!: mem_write_frame mem_read_frame split: sum.splits)

text \<open>The handlers that end with \<open>update_flags\<close> leave one of the three flags.\<close>

lemma add_sets: "add_instr s i = Inr s' \<Longrightarrow> reg s' R_COND \<in> {FL_NEG, FL_ZRO, FL_POS}"
  by (auto simp: add_instr_def Let_def dest: update_flags_sets split: if_splits)

lemma and_sets: "and_instr s i = Inr s' \<Longrightarrow> reg s' R_COND \<in> {FL_NEG, FL_ZRO, FL_POS}"
  by (auto simp: and_instr_def Let_def dest: update_flags_sets split: if_splits)

lemma not_sets: "not_instr s i = Inr s' \<Longrightarrow> reg s' R_COND \<in> {FL_NEG, FL_ZRO, FL_POS}"
  by (auto simp: not_instr_def Let_def dest: update_flags_sets)

lemma lea_sets: "lea s i = Inr s' \<Longrightarrow> reg s' R_COND \<in> {FL_NEG, FL_ZRO, FL_POS}"
  by (auto simp: lea_def Let_def dest: update_flags_sets)

lemma ld_sets: "ld s i = Inr s' \<Longrightarrow> reg s' R_COND \<in> {FL_NEG, FL_ZRO, FL_POS}"
  by (auto simp: ld_def Let_def dest: update_flags_sets split: sum.splits)

lemma ldi_sets: "ldi s i = Inr s' \<Longrightarrow> reg s' R_COND \<in> {FL_NEG, FL_ZRO, FL_POS}"
  by (auto simp: ldi_def Let_def dest: update_flags_sets split: sum.splits)

lemma ldr_sets: "ldr s i = Inr s' \<Longrightarrow> reg s' R_COND \<in> {FL_NEG, FL_ZRO, FL_POS}"
  by (auto simp: ldr_def Let_def dest: update_flags_sets split: sum.splits)

text \<open>A turn of the loop keeps the flag register or leaves one of the three flags in it.\<close>

lemma step_flag_kept_or_set:
  assumes "step s = Inr s'"
  shows "reg s' R_COND = reg s R_COND \<or> reg s' R_COND \<in> {FL_NEG, FL_ZRO, FL_POS}"
proof -
  let ?s0 = "s\<lparr>reg := (reg s)(R_PC := reg s R_PC + 1)\<rparr>"
  from assms obtain i s1 where f: "mem_read ?s0 (reg s R_PC) = Inr (i, s1)"
    by (auto simp: step_def Let_def split: sum.splits)
  then have r1: "reg s1 R_COND = reg s R_COND"
    by (auto dest!: mem_read_frame simp: reg_names)
  from assms f have
    "(let op = drop_bit 12 i
      in if op = OP_BR then Inr (br s1 i)
         else if op = OP_ADD then add_instr s1 i
         else if op = OP_LD then ld s1 i
         else if op = OP_ST then st s1 i
         else if op = OP_JSR then Inr (jsr s1 i)
         else if op = OP_AND then and_instr s1 i
         else if op = OP_LDR then ldr s1 i
         else if op = OP_STR then str s1 i
         else if op = OP_RTI then rti s1 i
         else if op = OP_NOT then not_instr s1 i
         else if op = OP_LDI then ldi s1 i
         else if op = OP_STI then sti s1 i
         else if op = OP_JMP then Inr (jmp s1 i)
         else if op = OP_RES then res s1 i
         else if op = OP_LEA then lea s1 i
         else if op = OP_TRAP then trap s1 i
         else Inl Abort) = Inr s'"
    by (simp add: step_def Let_def)
  then have "reg s' R_COND = reg s1 R_COND \<or> reg s' R_COND \<in> {FL_NEG, FL_ZRO, FL_POS}"
    by (auto simp: Let_def rti_def res_def br_cond jmp_cond jsr_cond
        dest: add_sets and_sets not_sets lea_sets ld_sets ldi_sets ldr_sets
          st_cond str_cond sti_cond trap_cond
        split: if_splits)
  with r1 show ?thesis by simp
qed

lemma run_flag_kept_or_set:
  "run n s = Inr s' \<Longrightarrow>
   reg s' R_COND = reg s R_COND \<or> reg s' R_COND \<in> {FL_NEG, FL_ZRO, FL_POS}"
proof (induction n arbitrary: s)
  case 0
  then show ?case by simp
next
  case (Suc n)
  show ?case
  proof (cases "running s \<noteq> 0")
    case True
    with Suc.prems obtain t where t: "step s = Inr t" "run n t = Inr s'"
      by (auto split: sum.splits)
    from step_flag_kept_or_set [OF t(1)] Suc.IH [OF t(2)] show ?thesis
      by auto
  next
    case False
    with Suc.prems show ?thesis by simp
  qed
qed

text \<open>
  Claim C3, as the program has it. When the run loop begins the condition flag register
  holds 0, which is none of \<open>FL_NEG\<close>, \<open>FL_ZRO\<close> and \<open>FL_POS\<close>: \<^verbatim>\<open>main\<close> assigns the program
  counter only. In every state the loop reaches, the register holds 0 or one of the
  three flags. Once it holds one of the three flags, every turn of the loop that ends
  without a fault, and so every run of the loop, leaves one of the three flags in it.
\<close>

theorem cond_flag_invariant_once_set:
  "reg (boot mem polls input) R_COND = 0
   \<and> (run n (boot mem polls input) = Inr s' \<longrightarrow> reg s' R_COND \<in> {0, FL_NEG, FL_ZRO, FL_POS})
   \<and> (reg s R_COND \<in> {FL_NEG, FL_ZRO, FL_POS} \<and> step s = Inr t
        \<longrightarrow> reg t R_COND \<in> {FL_NEG, FL_ZRO, FL_POS})
   \<and> (reg s R_COND \<in> {FL_NEG, FL_ZRO, FL_POS} \<and> run n s = Inr u
        \<longrightarrow> reg u R_COND \<in> {FL_NEG, FL_ZRO, FL_POS})"
proof (intro conjI impI)
  show b: "reg (boot mem polls input) R_COND = 0"
    by (simp add: boot_def zeroed_def reg_names)
  show "reg s' R_COND \<in> {0, FL_NEG, FL_ZRO, FL_POS}" if "run n (boot mem polls input) = Inr s'"
    using run_flag_kept_or_set [OF that] b by auto
  show "reg t R_COND \<in> {FL_NEG, FL_ZRO, FL_POS}"
    if "reg s R_COND \<in> {FL_NEG, FL_ZRO, FL_POS} \<and> step s = Inr t"
    using that step_flag_kept_or_set [of s t] by auto
  show "reg u R_COND \<in> {FL_NEG, FL_ZRO, FL_POS}"
    if "reg s R_COND \<in> {FL_NEG, FL_ZRO, FL_POS} \<and> run n s = Inr u"
    using that run_flag_kept_or_set [of n s u] by auto
qed

text \<open>
  At the start of the loop, with nothing loaded and a silent terminal, the flag register
  holds none of the three flags.
\<close>

theorem cond_flag_unset_at_boot:
  "reg (boot zeroed [] []) R_COND \<notin> {FL_NEG, FL_ZRO, FL_POS}"
  by (simp add: boot_def zeroed_def reg_names flag_names)

text \<open>
  The program ADD R0, R0, #1 at 0x3000: the first turn sets the flag to \<open>FL_POS\<close>, and the
  next turn (the word 0 at 0x3001 is a BR that is never taken) keeps it.
\<close>

theorem cond_flag_invariant_once_set_witness:
  "run 1 (boot (zeroed(0x3000 := 0x1021)) [] [])
     = Inr \<lparr>memory = zeroed(0x3000 := 0x1021),
            reg = zeroed(R_PC := 0x3001, R_R0 := 1, R_COND := FL_POS),
            running = 1, key_polls = [], stdin = [], stdout = []\<rparr>
   \<and> step \<lparr>memory = zeroed(0x3000 := 0x1021),
            reg = zeroed(R_PC := 0x3001, R_R0 := 1, R_COND := FL_POS),
            running = 1, key_polls = [], stdin = [], stdout = []\<rparr>
     = Inr \<lparr>memory = zeroed(0x3000 := 0x1021),
            reg = zeroed(R_PC := 0x3002, R_R0 := 1, R_COND := FL_POS),
            running = 1, key_polls = [], stdin = [], stdout = []\<rparr>
   \<and> run 1 \<lparr>memory = zeroed(0x3000 := 0x1021),
            reg = zeroed(R_PC := 0x3001, R_R0 := 1, R_COND := FL_POS),
            running = 1, key_polls = [], stdin = [], stdout = []\<rparr>
     = Inr \<lparr>memory = zeroed(0x3000 := 0x1021),
            reg = zeroed(R_PC := 0x3002, R_R0 := 1, R_COND := FL_POS),
            running = 1, key_polls = [], stdin = [], stdout = []\<rparr>
   \<and> reg \<lparr>memory = zeroed(0x3000 := 0x1021),
            reg = zeroed(R_PC := 0x3002, R_R0 := 1, R_COND := FL_POS),
            running = 1, key_polls = [], stdin = [], stdout = []\<rparr> R_COND
       \<in> {FL_NEG, FL_ZRO, FL_POS}"
  using cond_flag_invariant_once_set [of "zeroed(0x3000 := 0x1021)" "[]" "[]" 1
      "\<lparr>memory = zeroed(0x3000 := 0x1021),
        reg = zeroed(R_PC := 0x3001, R_R0 := 1, R_COND := FL_POS),
        running = 1, key_polls = [], stdin = [], stdout = []\<rparr>"
      "\<lparr>memory = zeroed(0x3000 := 0x1021),
        reg = zeroed(R_PC := 0x3001, R_R0 := 1, R_COND := FL_POS),
        running = 1, key_polls = [], stdin = [], stdout = []\<rparr>"
      "\<lparr>memory = zeroed(0x3000 := 0x1021),
        reg = zeroed(R_PC := 0x3002, R_R0 := 1, R_COND := FL_POS),
        running = 1, key_polls = [], stdin = [], stdout = []\<rparr>"]
  by (simp add: step_def mem_read_def boot_def PC_START_def zeroed_def reg_names mr_names
      UINT16_MAX_def op_names add_instr_def update_flags_def sign_extend_def flag_names
      Let_def br_def fun_eq_iff)

end
